theory Spec2Isabelle
  imports Main "HOL-Library.AList" "HOL-Library.Sublist"
begin

section \<open>Python values, exceptions and console output\<close>

text \<open>
  The script \<^verbatim>\<open>cpu_trainer.py\<close> of \<^verbatim>\<open>training_guide.ipynb\<close> handles tensors of token
  ids, plain Python values and dictionaries keyed by strings. A tensor is its shape and
  its elements in row-major order; the elements are integers (token ids, mask bits).
\<close>

datatype tensor = Tensor (shape: "nat list") (elems: "int list")

datatype pyval =
    PyNone
  | PyInt int
  | PyStr string
  | PyList "pyval list"
  | PyTensor tensor

text \<open>
  One element of the list handed to the collator: a \<^verbatim>\<open>dict\<close> with string keys (kept
  in insertion order), or any other value.
\<close>

datatype feature = PyDict "(string \<times> pyval) list" | NotDict pyval

datatype py_error =
    TypeError string
  | RuntimeError string
  | KeyError string
  | IndexError string
  | ValueError string

fun is_TypeError :: "py_error \<Rightarrow> bool" where
  "is_TypeError (TypeError _) = True"
| "is_TypeError _ = False"

text \<open>A batch is a \<^verbatim>\<open>dict\<close> from keys to stacked tensors, in insertion order.\<close>

type_synonym batch = "(string \<times> tensor) list"

text \<open>
  A call that prints and then returns or raises: the lines given to \<^verbatim>\<open>print\<close>, one
  string per call, and the outcome (\<open>Inl\<close> the exception that leaves the function).
\<close>

type_synonym 'a printed = "string list \<times> (py_error + 'a)"

subsection \<open>Text of the f-strings\<close>

definition sq :: "string \<Rightarrow> string" where
  "sq s = [CHR 0x27] @ s @ [CHR 0x27]"

definition class_str :: "string \<Rightarrow> string" where
  "class_str n = ''<class '' @ sq n @ ''>''"

fun type_name :: "pyval \<Rightarrow> string" where
  "type_name PyNone = ''NoneType''"
| "type_name (PyInt _) = ''int''"
| "type_name (PyStr _) = ''str''"
| "type_name (PyList _) = ''list''"
| "type_name (PyTensor _) = ''torch.Tensor''"

fun feature_type_name :: "feature \<Rightarrow> string" where
  "feature_type_name (PyDict _) = ''dict''"
| "feature_type_name (NotDict v) = type_name v"

definition digit_char :: "nat \<Rightarrow> char" where
  "digit_char d = ''0123456789'' ! d"

fun str_nat :: "nat \<Rightarrow> string" where
  "str_nat n = (if n < 10 then [digit_char n] else str_nat (n div 10) @ [digit_char (n mod 10)])"

declare str_nat.simps [simp del]

fun join :: "string \<Rightarrow> string list \<Rightarrow> string" where
  "join sep [] = []"
| "join sep [s] = s"
| "join sep (s # t # ss) = s @ sep @ join sep (t # ss)"

text \<open>The text of a \<^verbatim>\<open>torch.Size\<close>, as \<^verbatim>\<open>{t.shape}\<close> prints it.\<close>

definition size_str :: "nat list \<Rightarrow> string" where
  "size_str shp = ''torch.Size(['' @ join '', '' (map str_nat shp) @ ''])''"

section \<open>The diagnostic collator\<close>

text \<open>
  \<^verbatim>\<open>f[key]\<close> for a string key. A dict without the key raises KeyError; a value that
  is not a dict raises the error of its own type.
\<close>

fun getitem :: "feature \<Rightarrow> string \<Rightarrow> py_error + pyval" where
  "getitem (PyDict d) key =
     (case map_of d key of Some v \<Rightarrow> Inr v | None \<Rightarrow> Inl (KeyError (sq key)))"
| "getitem (NotDict PyNone) key =
     Inl (TypeError (sq ''NoneType'' @ '' object is not subscriptable''))"
| "getitem (NotDict (PyInt _)) key =
     Inl (TypeError (sq ''int'' @ '' object is not subscriptable''))"
| "getitem (NotDict (PyStr _)) key =
     Inl (TypeError ''string indices must be integers'')"
| "getitem (NotDict (PyList _)) key =
     Inl (TypeError ''list indices must be integers or slices, not str'')"
| "getitem (NotDict (PyTensor _)) key =
     Inl (IndexError ''only integers, slices (`:`), ellipsis (`...`), None and long or byte Variables are valid indices (got str)'')"

text \<open>\<^verbatim>\<open>[f[key] for f in features]\<close>: the first failing subscript ends the comprehension.\<close>

fun elements_for :: "feature list \<Rightarrow> string \<Rightarrow> py_error + pyval list" where
  "elements_for [] key = Inr []"
| "elements_for (f # fs) key =
     (case getitem f key of
        Inl e \<Rightarrow> Inl e
      | Inr v \<Rightarrow> (case elements_for fs key of Inl e \<Rightarrow> Inl e | Inr vs \<Rightarrow> Inr (v # vs)))"

text \<open>
  The prints about \<^verbatim>\<open>elements_for_stack[0]\<close> (the block under
  \<^verbatim>\<open>if elements_for_stack:\<close>). \<open>str_of\<close> is Python's \<^verbatim>\<open>str\<close> of a value.
\<close>

definition describe_first :: "(pyval \<Rightarrow> string) \<Rightarrow> pyval list \<Rightarrow> string list" where
  "describe_first str_of es =
     (case es of
        [] \<Rightarrow> []
      | e # _ \<Rightarrow>
          (''  Type of '' @ sq ''elements_for_stack[0]'' @ '': '' @ class_str (type_name e)) #
          (case e of
             PyList l \<Rightarrow>
               [''  Type of '' @ sq ''elements_for_stack[0][0]'' @ '': '' @
                  (case l of [] \<Rightarrow> ''empty list'' | x # _ \<Rightarrow> class_str (type_name x)),
                ''  Value of '' @ sq ''elements_for_stack[0]'' @ '': '' @ str_of e]
           | PyTensor t \<Rightarrow>
               [''  Shape of '' @ sq ''elements_for_stack[0]'' @ '': '' @ size_str (shape t)]
           | _ \<Rightarrow>
               [''  Value of '' @ sq ''elements_for_stack[0]'' @ '': '' @ str_of e]))"

definition stacked_line :: "tensor \<Rightarrow> string" where
  "stacked_line t =
     ''  '' @ sq ''batch[key]'' @ '' stacked successfully. Type: '' @ class_str ''torch.Tensor'' @
     '', Shape: '' @ size_str (shape t)"

definition type_error_line :: "string \<Rightarrow> string \<Rightarrow> string" where
  "type_error_line key msg = ''  TypeError during torch.stack for key '' @ sq key @ '': '' @ msg"

text \<open>
  The body of \<^verbatim>\<open>for key in features[0].keys():\<close>. \<open>stack\<close> is \<^verbatim>\<open>torch.stack\<close>,
  a function of the framework, taken as a parameter. The comprehension stands outside
  the \<^verbatim>\<open>try\<close>; inside it, only a TypeError is caught.
\<close>

definition collate_key ::
  "(pyval list \<Rightarrow> py_error + tensor) \<Rightarrow> (pyval \<Rightarrow> string) \<Rightarrow> feature list \<Rightarrow> batch \<Rightarrow> string
     \<Rightarrow> batch printed" where
  "collate_key stack str_of features batch key =
     (let out1 = [[CHR 0x0A] @ ''  --- Key: '' @ sq key @ '' ---''] in
      case features of
        [] \<Rightarrow> (out1, Inl (IndexError ''list index out of range''))
      | f0 # _ \<Rightarrow>
         (case getitem f0 key of
            Inl e \<Rightarrow> (out1, Inl e)
          | Inr v0 \<Rightarrow>
             (let out2 = out1 @
                    [''  Type of '' @ sq ''features[0][key]'' @ '': '' @ class_str (type_name v0)] in
              case elements_for features key of
                Inl e \<Rightarrow> (out2, Inl e)
              | Inr es \<Rightarrow>
                 (let out3 = out2 @
                        [''  Type of '' @ sq ''elements_for_stack'' @ '': '' @ class_str ''list''] @
                        describe_first str_of es in
                  case stack es of
                    Inr t \<Rightarrow> (out3 @ [stacked_line t], Inr (AList.update key t batch))
                  | Inl (TypeError msg) \<Rightarrow> (out3 @ [type_error_line key msg], Inr batch)
                  | Inl e \<Rightarrow> (out3, Inl e)))))"

text \<open>The loop over the keys: an exception that leaves the body ends the loop.\<close>

fun collate_keys ::
  "(pyval list \<Rightarrow> py_error + tensor) \<Rightarrow> (pyval \<Rightarrow> string) \<Rightarrow> feature list \<Rightarrow> batch \<Rightarrow> string list
     \<Rightarrow> batch printed" where
  "collate_keys stack str_of features batch [] = ([], Inr batch)"
| "collate_keys stack str_of features batch (key # keys) =
     (case collate_key stack str_of features batch key of
        (out, Inl e) \<Rightarrow> (out, Inl e)
      | (out, Inr batch') \<Rightarrow>
          (case collate_keys stack str_of features batch' keys of
             (out', r) \<Rightarrow> (out @ out', r)))"

definition end_line :: string where
  "end_line = ''--- End data collator ---'' @ [CHR 0x0A]"

text \<open>\<^verbatim>\<open>custom_data_collator(features)\<close>, for a list \<open>features\<close>.\<close>

definition custom_data_collator ::
  "(pyval list \<Rightarrow> py_error + tensor) \<Rightarrow> (pyval \<Rightarrow> string) \<Rightarrow> feature list \<Rightarrow> batch printed" where
  "custom_data_collator stack str_of features =
     (let out0 = [[CHR 0x0A] @ ''--- Inside data collator ---'',
                  ''Type of '' @ sq ''features'' @ '': '' @ class_str ''list''] in
      case features of
        [] \<Rightarrow> (out0 @ [end_line], Inr [])
      | f0 # _ \<Rightarrow>
         (let out1 = out0 @
                [''Length of '' @ sq ''features'' @ '': '' @ str_nat (length features),
                 ''Type of '' @ sq ''features[0]'' @ '': '' @ class_str (feature_type_name f0)] in
          case f0 of
            PyDict d \<Rightarrow>
              (case collate_keys stack str_of features [] (map fst d) of
                 (out, Inl e) \<Rightarrow> (out1 @ out, Inl e)
               | (out, Inr b) \<Rightarrow> (out1 @ out @ [end_line], Inr b))
          | NotDict _ \<Rightarrow>
              (out1 @ [''  '' @ sq ''features[0]'' @ '' is NOT a dictionary!'', end_line], Inr [])))"

subsection \<open>The framework's stack\<close>

text \<open>
  \<^verbatim>\<open>torch.stack\<close> is not code of this repository; the collator above takes it as a
  parameter. For evaluating the collator on concrete batches, this is the function as the
  framework documents it: every element must be a tensor (otherwise TypeError, naming the
  first offending element), the list must not be empty and all shapes must agree
  (otherwise RuntimeError); the result has a new leading dimension.
\<close>

fun first_non_tensor :: "nat \<Rightarrow> pyval list \<Rightarrow> (nat \<times> pyval) option" where
  "first_non_tensor i [] = None"
| "first_non_tensor i (PyTensor _ # es) = first_non_tensor (Suc i) es"
| "first_non_tensor i (e # es) = Some (i, e)"

fun tensors_of :: "pyval list \<Rightarrow> tensor list" where
  "tensors_of [] = []"
| "tensors_of (PyTensor t # es) = t # tensors_of es"
| "tensors_of (e # es) = tensors_of es"

fun first_other_shape :: "nat list \<Rightarrow> nat \<Rightarrow> tensor list \<Rightarrow> (nat \<times> nat list) option" where
  "first_other_shape shp i [] = None"
| "first_other_shape shp i (t # ts) =
     (if shape t = shp then first_other_shape shp (Suc i) ts else Some (i, shape t))"

definition shape_str :: "nat list \<Rightarrow> string" where
  "shape_str shp = ''['' @ join '', '' (map str_nat shp) @ '']''"

definition torch_stack :: "pyval list \<Rightarrow> py_error + tensor" where
  "torch_stack es =
     (case first_non_tensor 0 es of
        Some (i, v) \<Rightarrow>
          Inl (TypeError (''expected Tensor as element '' @ str_nat i @
                          '' in argument 0, but got '' @ type_name v))
      | None \<Rightarrow>
          (case tensors_of es of
             [] \<Rightarrow> Inl (RuntimeError ''stack expects a non-empty TensorList'')
           | t # ts \<Rightarrow>
               (case first_other_shape (shape t) 1 ts of
                  Some (i, shp) \<Rightarrow>
                    Inl (RuntimeError (''stack expects each tensor to be equal size, but got '' @
                           shape_str (shape t) @ '' at entry 0 and '' @ shape_str shp @
                           '' at entry '' @ str_nat i))
                | None \<Rightarrow> Inr (Tensor (length (t # ts) # shape t) (concat (map elems (t # ts)))))))"

subsection \<open>Python's str, for evaluation\<close>

text \<open>
  The collator takes \<^verbatim>\<open>str\<close> as a parameter too. For evaluation: the text of the plain
  values (strings without characters that \<^verbatim>\<open>repr\<close> escapes) and of a tensor of one
  dimension.
\<close>

fun str_int :: "int \<Rightarrow> string" where
  "str_int i = (if i < 0 then CHR ''-'' # str_nat (nat (- i)) else str_nat (nat i))"

fun py_repr :: "pyval \<Rightarrow> string" where
  "py_repr PyNone = ''None''"
| "py_repr (PyInt i) = str_int i"
| "py_repr (PyStr s) = sq s"
| "py_repr (PyList vs) = ''['' @ join '', '' (map py_repr vs) @ '']''"
| "py_repr (PyTensor t) = ''tensor(['' @ join '', '' (map str_int (elems t)) @ ''])''"

fun py_str :: "pyval \<Rightarrow> string" where
  "py_str (PyStr s) = s"
| "py_str v = py_repr v"

subsection \<open>Stack-based collation, as the specification words it\<close>

text \<open>
  The stack of one key's values across the features, when the values can be collected
  and stacked.
\<close>

definition stack_of_key ::
  "(pyval list \<Rightarrow> py_error + tensor) \<Rightarrow> feature list \<Rightarrow> string \<Rightarrow> (string \<times> tensor) option" where
  "stack_of_key stack features key =
     (case elements_for features key of
        Inl _ \<Rightarrow> None
      | Inr es \<Rightarrow> (case stack es of Inl _ \<Rightarrow> None | Inr t \<Rightarrow> Some (key, t)))"

text \<open>
  The default collation of the specification: a dict with the keys of the first feature,
  each mapped to the stack of that key's tensors across the features, and nothing else.
  It is defined when the list starts with a dict and every key can be stacked.
\<close>

definition default_stack_collation ::
  "(pyval list \<Rightarrow> py_error + tensor) \<Rightarrow> feature list \<Rightarrow> batch option" where
  "default_stack_collation stack features =
     (case features of
        PyDict d # _ \<Rightarrow> those (map (stack_of_key stack features) (map fst d))
      | _ \<Rightarrow> None)"

text \<open>The keys that can be stacked, with their stacks, in the order of the keys.\<close>

definition stacked_keys ::
  "(pyval list \<Rightarrow> py_error + tensor) \<Rightarrow> feature list \<Rightarrow> string list \<Rightarrow> batch" where
  "stacked_keys stack features keys = List.map_filter (stack_of_key stack features) keys"

text \<open>
  A key whose values can be collected from every feature and whose stacking succeeds or
  raises a TypeError.
\<close>

definition key_suppressed ::
  "(pyval list \<Rightarrow> py_error + tensor) \<Rightarrow> feature list \<Rightarrow> string \<Rightarrow> bool" where
  "key_suppressed stack features key =
     (case elements_for features key of
        Inl _ \<Rightarrow> False
      | Inr es \<Rightarrow> (case stack es of Inr _ \<Rightarrow> True | Inl e \<Rightarrow> is_TypeError e))"

definition only_type_errors ::
  "(pyval list \<Rightarrow> py_error + tensor) \<Rightarrow> feature list \<Rightarrow> string list \<Rightarrow> bool" where
  "only_type_errors stack features keys = list_all (key_suppressed stack features) keys"

section \<open>Tokenizing the dataset\<close>

text \<open>
  The tokenizer comes from the framework: \<^verbatim>\<open>AutoTokenizer.from_pretrained(MODEL_NAME)\<close>.
  Its vocabulary and merge rules are data downloaded at run time, so the encoding of a
  text into token ids is a field of the model. The script then sets the padding token:
  \<^verbatim>\<open>tokenizer.pad_token = tokenizer.eos_token\<close>.
\<close>

record tokenizer =
  encode :: "string \<Rightarrow> int list"
  eos_token_id :: int
  pad_token_id :: "int option"

definition set_pad_to_eos :: "tokenizer \<Rightarrow> tokenizer" where
  "set_pad_to_eos tok = tok\<lparr>pad_token_id := Some (eos_token_id tok)\<rparr>"

type_synonym encoding = "(string \<times> tensor) list"

text \<open>
  Modelled from the spec: the framework's tokenizer call
  \<^verbatim>\<open>tokenizer(text, max_length=n, truncation=b, padding=p, return_tensors="pt")\<close>, which is
  not code of this repository ("tokenize with fixed padding/truncation"). With truncation
  the ids are cut to \<open>max_length\<close>; with padding \<^verbatim>\<open>"max_length"\<close> they are filled up to
  \<open>max_length\<close> with the padding token, on the right, and the attention mask marks the
  filling with 0; any other padding leaves the length alone. The result holds
  \<^verbatim>\<open>input_ids\<close> and \<^verbatim>\<open>attention_mask\<close> as tensors with a leading batch dimension of 1.
\<close>

definition tokenizer_call ::
  "tokenizer \<Rightarrow> string \<Rightarrow> nat \<Rightarrow> bool \<Rightarrow> string \<Rightarrow> py_error + encoding" where
  "tokenizer_call tok text max_length truncation padding =
     (let ids = (if truncation then take max_length (encode tok text) else encode tok text);
          n = length ids
      in if padding = ''max_length'' then
           (case pad_token_id tok of
              None \<Rightarrow> Inl (ValueError ''Asking to pad but the tokenizer does not have a padding token.'')
            | Some pad \<Rightarrow>
                Inr [(''input_ids'',
                        Tensor [1, max n max_length] (ids @ replicate (max_length - n) pad)),
                     (''attention_mask'',
                        Tensor [1, max n max_length] (replicate n 1 @ replicate (max_length - n) 0))])
         else
           Inr [(''input_ids'', Tensor [1, n] ids),
                (''attention_mask'', Tensor [1, n] (replicate n 1))])"

text \<open>\<^verbatim>\<open>t.clone()\<close>: a new tensor with the same shape and elements.\<close>

definition clone :: "tensor \<Rightarrow> tensor" where
  "clone t = Tensor (shape t) (elems t)"

text \<open>\<^verbatim>\<open>t.squeeze(0)\<close>: the leading dimension is dropped when its size is 1.\<close>

fun squeeze0 :: "tensor \<Rightarrow> tensor" where
  "squeeze0 (Tensor (d # shp) xs) = (if d = 1 then Tensor shp xs else Tensor (d # shp) xs)"
| "squeeze0 (Tensor [] xs) = Tensor [] xs"

text \<open>
  \<^verbatim>\<open>tokenize_function(example)\<close>. The first argument is the tokenizer call (text,
  \<^verbatim>\<open>max_length\<close>, \<^verbatim>\<open>truncation\<close>, \<^verbatim>\<open>padding\<close>), with \<^verbatim>\<open>return_tensors="pt"\<close>.
\<close>

definition tokenize_function ::
  "(string \<Rightarrow> nat \<Rightarrow> bool \<Rightarrow> string \<Rightarrow> py_error + encoding) \<Rightarrow> (string \<times> string) list
     \<Rightarrow> py_error + encoding" where
  "tokenize_function tokenizer example =
     (case map_of example ''text'' of
        None \<Rightarrow> Inl (KeyError (sq ''text''))
      | Some text \<Rightarrow>
          (case tokenizer text 32 True ''max_length'' of
             Inl e \<Rightarrow> Inl e
           | Inr tokenized_inputs \<Rightarrow>
               (case map_of tokenized_inputs ''input_ids'' of
                  None \<Rightarrow> Inl (KeyError (sq ''input_ids''))
                | Some input_ids \<Rightarrow>
                    Inr (map (\<lambda>(key, value). (key, squeeze0 value))
                           (AList.update ''labels'' (clone input_ids) tokenized_inputs)))))"


section \<open>The notebook: installation, script and run instructions\<close>

subsection \<open>The installation cell\<close>

text \<open>The three \<^verbatim>\<open>pip install\<close> commands of section 2 of the notebook, word by word.\<close>

definition pip_install_cell :: "string list list" where
  "pip_install_cell =
     [[''pip'', ''install'', ''torch'', ''torchvision'', ''torchaudio'',
       ''--index-url'', ''https://download.pytorch.org/whl/cpu''],
      [''pip'', ''install'', ''--no-cache-dir'', ''--force-reinstall'',
       ''git+https://github.com/huggingface/transformers.git''],
      [''pip'', ''install'', ''datasets'']]"

text \<open>
  The requirements of a command: its arguments after \<^verbatim>\<open>pip install\<close> that are neither
  options nor the value of \<^verbatim>\<open>--index-url\<close>.
\<close>

fun install_args :: "string list \<Rightarrow> string list" where
  "install_args [] = []"
| "install_args (a # as) =
     (if a = ''--index-url'' then install_args (drop 1 as)
      else if prefix ''-'' a then install_args as
      else a # install_args as)"

definition requirements :: "string list \<Rightarrow> string list" where
  "requirements cmd = install_args (drop 2 cmd)"

text \<open>
  A requirement names its version when it carries \<^verbatim>\<open>==\<close>, or, for a repository URL,
  a revision after \<^verbatim>\<open>@\<close>.
\<close>

definition pinned :: "string \<Rightarrow> bool" where
  "pinned req = (if prefix ''git+'' req then CHR ''@'' \<in> set req else sublist ''=='' req)"

subsection \<open>The top-level calls of the script\<close>

text \<open>
  \<^verbatim>\<open>cpu_trainer.py\<close> is a straight line of statements. Its run, when nothing raises, is
  the list of its top-level calls in the order in which Python evaluates them (an
  argument before the call that takes it). \<open>To x d\<close> is \<^verbatim>\<open>x.to(d)\<close>. Function
  definitions, imports and plain assignments are not calls.
\<close>

datatype call =
    AutoTokenizer_from_pretrained string
  | Dataset_from_list
  | Dataset_map
  | Dataset_set_format string
  | Dataset_remove_columns "string list"
  | TrainingArguments_init
  | AutoModelForCausalLM_from_pretrained string
  | To string string
  | Trainer_init
  | Trainer_train
  | Print
  | Model_eval
  | Tokenizer_call
  | No_grad
  | Model_generate
  | Tokenizer_decode
  | Model_save_pretrained string
  | Tokenizer_save_pretrained string

definition MODEL_NAME :: string where
  "MODEL_NAME = ''gpt2''"

definition OUTPUT_DIR :: string where
  "OUTPUT_DIR = ''./cpu_trained_model''"

definition cpu_trainer :: "call list" where
  "cpu_trainer =
     [AutoTokenizer_from_pretrained MODEL_NAME,
      Dataset_from_list,
      Dataset_map,
      Dataset_set_format ''torch'',
      Dataset_remove_columns [''text''],
      TrainingArguments_init,
      AutoModelForCausalLM_from_pretrained MODEL_NAME,
      To ''model'' ''cpu'',
      Trainer_init,
      Trainer_train,
      Print,
      Model_eval,
      Tokenizer_call,
      To ''tokenizer(prompt).input_ids'' ''cpu'',
      No_grad,
      To ''input_ids'' ''cpu'',
      Model_generate,
      Tokenizer_decode,
      Print,
      Print,
      Model_save_pretrained OUTPUT_DIR,
      Tokenizer_save_pretrained OUTPUT_DIR]"

text \<open>
  The stages of the specification's pipeline. Its glossary keeps the pretrained model (a
  language model loaded by name) apart from the tokenizer, so loading the tokenizer counts
  with the dataset and tokenizer utilities.
\<close>

datatype stage =
    PretrainedModelLoader
  | DatasetTokenizerUtility
  | GenericTrainer
  | TextGeneration
  | SaveToDisk
  | OtherCall

fun stage_of :: "call \<Rightarrow> stage" where
  "stage_of (AutoModelForCausalLM_from_pretrained _) = PretrainedModelLoader"
| "stage_of (AutoTokenizer_from_pretrained _) = DatasetTokenizerUtility"
| "stage_of Dataset_from_list = DatasetTokenizerUtility"
| "stage_of Dataset_map = DatasetTokenizerUtility"
| "stage_of (Dataset_set_format _) = DatasetTokenizerUtility"
| "stage_of (Dataset_remove_columns _) = DatasetTokenizerUtility"
| "stage_of Tokenizer_call = DatasetTokenizerUtility"
| "stage_of Tokenizer_decode = DatasetTokenizerUtility"
| "stage_of Trainer_init = GenericTrainer"
| "stage_of Trainer_train = GenericTrainer"
| "stage_of Model_generate = TextGeneration"
| "stage_of (Model_save_pretrained _) = SaveToDisk"
| "stage_of (Tokenizer_save_pretrained _) = SaveToDisk"
| "stage_of _ = OtherCall"

definition claimed_order :: "stage list" where
  "claimed_order =
     [PretrainedModelLoader, DatasetTokenizerUtility, GenericTrainer, TextGeneration, SaveToDisk]"

text \<open>The stages a run goes through: calls of no stage left out, repetitions merged.\<close>

definition stages :: "call list \<Rightarrow> stage list" where
  "stages cs = remdups_adj (filter (\<lambda>s. s \<noteq> OtherCall) (map stage_of cs))"

fun device_moves :: "call list \<Rightarrow> (string \<times> string) list" where
  "device_moves [] = []"
| "device_moves (To x d # cs) = (x, d) # device_moves cs"
| "device_moves (_ # cs) = device_moves cs"

subsection \<open>Training configuration and run instructions\<close>

record training_arguments =
  output_dir :: string
  num_train_epochs :: nat
  per_device_train_batch_size :: nat
  logging_steps :: nat
  report_to :: string
  save_strategy :: string
  device :: string
  no_cuda :: bool

definition training_args :: training_arguments where
  "training_args =
     \<lparr>output_dir = OUTPUT_DIR, num_train_epochs = 3, per_device_train_batch_size = 2,
      logging_steps = 10, report_to = ''none'', save_strategy = ''epoch'',
      device = ''cpu'', no_cuda = True\<rparr>"

text \<open>The \<^verbatim>\<open>export\<close> lines of section 4 of the notebook: variable and value.\<close>

definition run_exports :: "(string \<times> string) list" where
  "run_exports =
     [(''CUDA_VISIBLE_DEVICES'', ''''),
      (''PYTORCH_CUDA_ALLOC_CONF'', ''garbage_collection_threshold:0.8,max_split_size_mb:512'')]"

text \<open>A variable concerns the accelerator when its name mentions \<^verbatim>\<open>CUDA\<close>.\<close>

definition accelerator_related :: "string \<Rightarrow> bool" where
  "accelerator_related name = sublist ''CUDA'' name"

section \<open>The Makefile\<close>

abbreviation tab :: string where
  "tab \<equiv> [CHR 0x09]"

abbreviation dq :: string where
  "dq \<equiv> [CHR 0x22]"

abbreviation bs :: string where
  "bs \<equiv> [CHR 0x5C]"

text \<open>The file, line by line.\<close>

definition makefile_lines :: "string list" where
  "makefile_lines =
     [''.DEFAULT_GOAL := all'',
      '''',
      ''.PHONY: all'',
      ''all: ## Show the available make targets.'',
      tab @ ''@echo '' @ dq @ ''Usage: make <target>'' @ dq,
      tab @ ''@echo '' @ dq @ dq,
      tab @ ''@echo '' @ dq @ ''Targets:'' @ dq,
      tab @ ''@fgrep '' @ dq @ ''##'' @ dq @ '' Makefile | fgrep -v fgrep'',
      '''',
      ''.PHONY: clean'',
      ''clean: ## Clean the temporary files.'',
      tab @ ''rm -rf .pytest_cache'',
      tab @ ''rm -rf .mypy_cache'',
      tab @ ''rm -rf .coverage'',
      tab @ ''rm -rf .ruff_cache'',
      tab @ ''rm -rf megalinter-reports'',
      '''',
      ''.PHONY: format'',
      ''format:  ## Format the code.'',
      tab @ ''poetry run black .'',
      tab @ ''poetry run ruff check . --fix'',
      '''',
      ''.PHONY: lint'',
      ''lint:  ## Run all linters (black/ruff/pylint/mypy).'',
      tab @ ''poetry run black --check .'',
      tab @ ''poetry run ruff check .'',
      tab @ ''make mypy'',
      '''',
      ''.PHONY: test'',
      ''test:  ## Run the tests and check coverage.'',
      tab @ ''poetry run pytest -n auto --cov=twenty_percent --cov-report term-missing --cov-fail-under=100'',
      '''',
      ''.PHONY: mypy'',
      ''mypy:  ## Run mypy.'',
      tab @ ''poetry run mypy twenty_percent'',
      '''',
      ''.PHONY: install'',
      ''install:  ## Install the dependencies excluding dev.'',
      tab @ ''poetry install --only main'',
      '''',
      ''.PHONY: install-dev'',
      ''install-dev:  ## Install the dependencies including dev.'',
      tab @ ''poetry install'',
      '''',
      ''.PHONY: megalint'',
      ''megalint:  ## Run the mega-linter.'',
      tab @ ''docker run --platform linux/amd64 --rm '' @ bs,
      tab @ tab @ ''-v /var/run/docker.sock:/var/run/docker.sock:rw '' @ bs,
      tab @ tab @ ''-v $(shell pwd):/tmp/lint:rw '' @ bs,
      tab @ tab @ ''oxsecurity/megalinter:v7'']"

definition is_recipe_line :: "string \<Rightarrow> bool" where
  "is_recipe_line l = (case l of [] \<Rightarrow> False | c # _ \<Rightarrow> c = CHR 0x09)"

text \<open>
  The target of a rule line \<^verbatim>\<open>name: ...\<close>. Recipe lines, comments and the special
  names that start with a dot (\<^verbatim>\<open>.PHONY\<close>, \<^verbatim>\<open>.DEFAULT_GOAL\<close>) are no targets.
\<close>

definition rule_target :: "string \<Rightarrow> string option" where
  "rule_target l =
     (case l of
        [] \<Rightarrow> None
      | c # _ \<Rightarrow>
          if c = CHR 0x09 \<or> c = CHR ''.'' \<or> c = CHR ''#'' then None
          else if CHR '':'' \<in> set l then Some (takeWhile (\<lambda>x. x \<noteq> CHR '':'') l)
          else None)"

text \<open>Every target with its recipe: the recipe lines that follow the rule line.\<close>

fun rules_of :: "string list \<Rightarrow> (string \<times> string list) list" where
  "rules_of [] = []"
| "rules_of (l # ls) =
     (case rule_target l of
        Some t \<Rightarrow> (t, takeWhile is_recipe_line ls) # rules_of ls
      | None \<Rightarrow> rules_of ls)"

text \<open>A recipe line that ends with a backslash goes on in the next line.\<close>

fun logical_commands :: "string list \<Rightarrow> string list" where
  "logical_commands [] = []"
| "logical_commands (l # ls) =
     (if l \<noteq> [] \<and> last l = CHR 0x5C then
        (case logical_commands ls of
           [] \<Rightarrow> [butlast l]
         | c # cs \<Rightarrow> (butlast l @ c) # cs)
      else l # logical_commands ls)"

text \<open>The program a command starts: its first word, after the tab and make's \<^verbatim>\<open>@\<close>.\<close>

definition program :: "string \<Rightarrow> string" where
  "program cmd =
     takeWhile (\<lambda>c. c \<noteq> CHR '' '')
       (dropWhile (\<lambda>c. c = CHR 0x09 \<or> c = CHR '' '' \<or> c = CHR ''@'') cmd)"

definition commands_of :: "string list \<Rightarrow> (string \<times> string list) list" where
  "commands_of ls = map (\<lambda>(t, recipe). (t, logical_commands recipe)) (rules_of ls)"

text \<open>\<^verbatim>\<open>fgrep pat\<close> keeps the lines that contain \<open>pat\<close>, \<^verbatim>\<open>fgrep -v pat\<close> the others.\<close>

definition fgrep :: "string \<Rightarrow> string list \<Rightarrow> string list" where
  "fgrep pat ls = filter (sublist pat) ls"

definition fgrep_v :: "string \<Rightarrow> string list \<Rightarrow> string list" where
  "fgrep_v pat ls = filter (\<lambda>l. \<not> sublist pat l) ls"

text \<open>
  What the recipe of \<^verbatim>\<open>all\<close> prints: three \<^verbatim>\<open>echo\<close> lines, then
  \<^verbatim>\<open>fgrep "##" Makefile | fgrep -v fgrep\<close>.
\<close>

definition make_all_output :: "string list" where
  "make_all_output =
     [''Usage: make <target>'', '''', ''Targets:''] @
     fgrep_v ''fgrep'' (fgrep ''##'' makefile_lines)"

text \<open>
  A command that deals with exit statuses itself: \<^verbatim>\<open>exit\<close>, the shell's \<^verbatim>\<open>||\<close>,
  \<^verbatim>\<open>&&\<close>, \<^verbatim>\<open>;\<close> and \<^verbatim>\<open>$?\<close>, or make's \<^verbatim>\<open>-\<close> in front of the command.
\<close>

definition handles_exit_status :: "string \<Rightarrow> bool" where
  "handles_exit_status cmd =
     (program cmd = ''exit'' \<or> sublist ''||'' cmd \<or> sublist ''&&'' cmd \<or> sublist ''$?'' cmd \<or>
      CHR '';'' \<in> set cmd \<or>
      prefix ''-'' (dropWhile (\<lambda>c. c = CHR 0x09 \<or> c = CHR ''@'') cmd))"

text \<open>The lines outside the recipes that assign a variable.\<close>

definition assignments :: "string list \<Rightarrow> string list" where
  "assignments ls = filter (\<lambda>l. CHR ''='' \<in> set l) (filter (\<lambda>l. \<not> is_recipe_line l) ls)"

section \<open>Example inputs\<close>

text \<open>Two tokenized examples as the trainer hands them over: every field a tensor.\<close>

definition tensor_example_1 :: "(string \<times> pyval) list" where
  "tensor_example_1 =
     [(''input_ids'', PyTensor (Tensor [3] [464, 2068, 50256])),
      (''attention_mask'', PyTensor (Tensor [3] [1, 1, 0])),
      (''labels'', PyTensor (Tensor [3] [464, 2068, 50256]))]"

definition tensor_example_2 :: "(string \<times> pyval) list" where
  "tensor_example_2 =
     [(''input_ids'', PyTensor (Tensor [3] [18045, 862, 625])),
      (''attention_mask'', PyTensor (Tensor [3] [1, 1, 1])),
      (''labels'', PyTensor (Tensor [3] [18045, 862, 625]))]"

text \<open>Two examples whose \<^verbatim>\<open>input_ids\<close> are still Python lists.\<close>

definition list_example_1 :: "(string \<times> pyval) list" where
  "list_example_1 =
     [(''input_ids'', PyList [PyInt 464, PyInt 2068]),
      (''attention_mask'', PyTensor (Tensor [2] [1, 1]))]"

definition list_example_2 :: "(string \<times> pyval) list" where
  "list_example_2 =
     [(''input_ids'', PyList [PyInt 18045, PyInt 862]),
      (''attention_mask'', PyTensor (Tensor [2] [1, 0]))]"

text \<open>Two examples whose tensors differ in length.\<close>

definition ragged_example_1 :: "(string \<times> pyval) list" where
  "ragged_example_1 = [(''input_ids'', PyTensor (Tensor [2] [464, 2068]))]"

definition ragged_example_2 :: "(string \<times> pyval) list" where
  "ragged_example_2 = [(''input_ids'', PyTensor (Tensor [3] [18045, 862, 625]))]"

text \<open>Two examples with lists as \<^verbatim>\<open>input_ids\<close> and masks that differ in length.\<close>

definition mixed_example_1 :: "(string \<times> pyval) list" where
  "mixed_example_1 =
     [(''input_ids'', PyList [PyInt 464, PyInt 2068]),
      (''attention_mask'', PyTensor (Tensor [2] [1, 1]))]"

definition mixed_example_2 :: "(string \<times> pyval) list" where
  "mixed_example_2 =
     [(''input_ids'', PyList [PyInt 18045, PyInt 862, PyInt 625]),
      (''attention_mask'', PyTensor (Tensor [3] [1, 1, 1]))]"

text \<open>
  A tokenizer for evaluation: one token per character, its code. The encoding of the
  first sentence of the dataset under it, padded with the end-of-text id.
\<close>

definition byte_tokenizer :: tokenizer where
  "byte_tokenizer =
     \<lparr>encode = map (\<lambda>c. int (of_char c)), eos_token_id = 50256, pad_token_id = None\<rparr>"

definition fox_ids :: "int list" where
  "fox_ids =
     [84, 104, 101, 32, 113, 117, 105, 99, 107, 32, 98, 114, 111, 119, 110, 32, 102, 111, 120,
      50256, 50256, 50256, 50256, 50256, 50256, 50256, 50256, 50256, 50256, 50256, 50256, 50256]"

definition fox_mask :: "int list" where
  "fox_mask =
     [1, 1, 1, 1, 1, 1, 1, 1, 1, 1, 1, 1, 1, 1, 1, 1, 1, 1, 1,
      0, 0, 0, 0, 0, 0, 0, 0, 0, 0, 0, 0, 0]"

section \<open>Properties of the collator\<close>

lemma elements_for_first:
  "elements_for (f0 # fs) key = Inr es \<Longrightarrow> \<exists>v0. getitem f0 key = Inr v0"
  by (auto split: sum.splits)

text \<open>The outcome of the loop body, once the values of the key are collected.\<close>

lemma collate_key_result:
  assumes "features \<noteq> []" and "elements_for features key = Inr es"
  shows "snd (collate_key stack str_of features batch key) =
           (case stack es of
              Inr t \<Rightarrow> Inr (AList.update key t batch)
            | Inl e \<Rightarrow> if is_TypeError e then Inr batch else Inl e)"
proof -
  from assms obtain f0 fs where f: "features = f0 # fs" by (cases features) auto
  with assms obtain v0 where "getitem f0 key = Inr v0" using elements_for_first by blast
  with f assms show ?thesis
    by (cases "stack es") (auto simp: collate_key_def Let_def split: py_error.splits)
qed

lemma collate_key_type_error_printed:
  assumes "features \<noteq> []" and "elements_for features key = Inr es"
    and "stack es = Inl (TypeError msg)"
  shows "type_error_line key msg \<in> set (fst (collate_key stack str_of features batch key))"
proof -
  from assms obtain f0 fs where f: "features = f0 # fs" by (cases features) auto
  with assms obtain v0 where "getitem f0 key = Inr v0" using elements_for_first by blast
  with f assms show ?thesis
    by (auto simp: collate_key_def Let_def)
qed

lemma collate_key_output_raised:
  assumes "features \<noteq> []" and "elements_for features key = Inr es"
    and "stack es = Inl e" and "\<not> is_TypeError e"
  shows "\<exists>pre. fst (collate_key stack str_of features batch key) = pre @ describe_first str_of es"
proof -
  from assms obtain f0 fs where f: "features = f0 # fs" by (cases features) auto
  with assms obtain v0 where "getitem f0 key = Inr v0" using elements_for_first by blast
  with f assms show ?thesis
    by (cases e) (auto simp: collate_key_def Let_def)
qed

text \<open>A key that is suppressed or stacked leaves the loop running.\<close>

lemma collate_key_continues:
  assumes "features \<noteq> []" and "key_suppressed stack features key"
  shows "\<exists>out b'. collate_key stack str_of features b key = (out, Inr b')"
proof -
  from assms(2) obtain es where es: "elements_for features key = Inr es"
    and ok: "case stack es of Inr _ \<Rightarrow> True | Inl e \<Rightarrow> is_TypeError e"
    by (auto simp: key_suppressed_def split: sum.splits)
  have "\<exists>b'. snd (collate_key stack str_of features b key) = Inr b'"
    using collate_key_result [OF assms(1) es, of stack str_of b] ok
    by (cases "stack es") (auto split: if_splits)
  then show ?thesis
    by (cases "collate_key stack str_of features b key") auto
qed

lemma update_fresh: "key \<notin> fst ` set b \<Longrightarrow> AList.update key t b = b @ [(key, t)]"
  by (induction b) auto

lemma stack_of_key_suppressed:
  "stack_of_key stack features key = Some p \<Longrightarrow> key_suppressed stack features key"
  by (auto simp: stack_of_key_def key_suppressed_def split: sum.splits)

lemma stack_of_key_raised:
  "elements_for features key = Inr es \<Longrightarrow> stack es = Inl e \<Longrightarrow> stack_of_key stack features key = None"
  by (simp add: stack_of_key_def)

lemma stack_of_key_stacked:
  "elements_for features key = Inr es \<Longrightarrow> stack es = Inr t \<Longrightarrow>
     stack_of_key stack features key = Some (key, t)"
  by (simp add: stack_of_key_def)

text \<open>
  The loop over keys that are all stacked or suppressed returns, and the batch holds the
  stacked keys in their order.
\<close>

lemma collate_keys_suppressed:
  assumes "features \<noteq> []" and "only_type_errors stack features keys"
    and "distinct keys" and "set keys \<inter> fst ` set b = {}"
  shows "snd (collate_keys stack str_of features b keys) = Inr (b @ stacked_keys stack features keys)"
  using assms(2-)
proof (induction keys arbitrary: b)
  case Nil
  then show ?case by (simp add: stacked_keys_def)
next
  case (Cons key keys)
  from Cons.prems have sup: "key_suppressed stack features key"
    and rest: "only_type_errors stack features keys"
    by (simp_all add: only_type_errors_def)
  from sup obtain es where es: "elements_for features key = Inr es"
    and ok: "case stack es of Inr _ \<Rightarrow> True | Inl e \<Rightarrow> is_TypeError e"
    by (auto simp: key_suppressed_def split: sum.splits)
  have fresh: "key \<notin> fst ` set b" using Cons.prems by auto
  show ?case
  proof (cases "stack es")
    case (Inl e)
    with ok have te: "is_TypeError e" by simp
    have step: "snd (collate_key stack str_of features b key) = Inr b"
      using collate_key_result [OF assms(1) es, of stack str_of b] Inl te by simp
    have "snd (collate_keys stack str_of features b keys) = Inr (b @ stacked_keys stack features keys)"
      using Cons.IH [of b] rest Cons.prems by auto
    moreover have "stack_of_key stack features key = None"
      using es Inl by (rule stack_of_key_raised)
    ultimately show ?thesis using step
      by (cases "collate_key stack str_of features b key";
          cases "collate_keys stack str_of features b keys")
         (auto simp: stacked_keys_def)
  next
    case (Inr t)
    have step: "snd (collate_key stack str_of features b key) = Inr (b @ [(key, t)])"
      using collate_key_result [OF assms(1) es, of stack str_of b] Inr update_fresh [OF fresh]
      by simp
    have "set keys \<inter> fst ` set (b @ [(key, t)]) = {}" using Cons.prems by auto
    then have "snd (collate_keys stack str_of features (b @ [(key, t)]) keys) =
                 Inr ((b @ [(key, t)]) @ stacked_keys stack features keys)"
      using Cons.IH [of "b @ [(key, t)]"] rest Cons.prems by auto
    moreover have "stack_of_key stack features key = Some (key, t)"
      using es Inr by (rule stack_of_key_stacked)
    ultimately show ?thesis using step
      by (cases "collate_key stack str_of features b key";
          cases "collate_keys stack str_of features (b @ [(key, t)]) keys")
         (auto simp: stacked_keys_def)
  qed
qed

text \<open>Every TypeError that a key's stacking raises is printed.\<close>

lemma collate_keys_printed:
  assumes "features \<noteq> []" and "only_type_errors stack features keys"
    and "key \<in> set keys" and "elements_for features key = Inr es"
    and "stack es = Inl (TypeError msg)"
  shows "type_error_line key msg \<in> set (fst (collate_keys stack str_of features b keys))"
  using assms(2,3)
proof (induction keys arbitrary: b)
  case Nil
  then show ?case by simp
next
  case (Cons k keys)
  from Cons.prems have sup: "key_suppressed stack features k"
    and rest: "only_type_errors stack features keys"
    by (simp_all add: only_type_errors_def)
  obtain out b' where kr: "collate_key stack str_of features b k = (out, Inr b')"
    using collate_key_continues [OF assms(1) sup] by blast
  obtain out' r' where ksr: "collate_keys stack str_of features b' keys = (out', r')"
    by (cases "collate_keys stack str_of features b' keys")
  have all: "fst (collate_keys stack str_of features b (k # keys)) = out @ out'"
    using kr ksr by simp
  show ?case
  proof (cases "key = k")
    case True
    then have "type_error_line key msg \<in> set out"
      using collate_key_type_error_printed [of features key es stack msg str_of b]
        assms(1,4,5) kr by simp
    with all show ?thesis by simp
  next
    case False
    with Cons.prems have "key \<in> set keys" by simp
    then have "type_error_line key msg \<in> set out'"
      using Cons.IH [OF rest, of b'] ksr by simp
    with all show ?thesis by simp
  qed
qed

text \<open>
  A TypeError raised at a key that the loop reaches is printed, whatever happens at the
  keys after it.
\<close>

lemma collate_keys_prints_before_raise:
  assumes "features \<noteq> []" and "only_type_errors stack features ks1"
    and "elements_for features key = Inr es" and "stack es = Inl (TypeError msg)"
  shows "type_error_line key msg
           \<in> set (fst (collate_keys stack str_of features b (ks1 @ key # ks2)))"
  using assms(2)
proof (induction ks1 arbitrary: b)
  case Nil
  have sup: "key_suppressed stack features key"
    using assms(3,4) by (simp add: key_suppressed_def)
  obtain out b' where kr: "collate_key stack str_of features b key = (out, Inr b')"
    using collate_key_continues [OF assms(1) sup] by blast
  have "type_error_line key msg \<in> set out"
    using collate_key_type_error_printed [of features key es stack msg str_of b]
      assms(1,3,4) kr by simp
  then show ?case using kr
    by (cases "collate_keys stack str_of features b' ks2") auto
next
  case (Cons k ks1)
  from Cons.prems have sup: "key_suppressed stack features k"
    and rest: "only_type_errors stack features ks1"
    by (simp_all add: only_type_errors_def)
  obtain out b' where kr: "collate_key stack str_of features b k = (out, Inr b')"
    using collate_key_continues [OF assms(1) sup] by blast
  have "type_error_line key msg
          \<in> set (fst (collate_keys stack str_of features b' (ks1 @ key # ks2)))"
    using Cons.IH [OF rest] .
  then show ?case using kr
    by (cases "collate_keys stack str_of features b' (ks1 @ key # ks2)") auto
qed

text \<open>A key that is neither stacked nor suppressed ends the loop with an exception.\<close>

lemma collate_key_raises:
  assumes "features \<noteq> []" and "\<not> key_suppressed stack features key"
  shows "\<exists>out e. collate_key stack str_of features b key = (out, Inl e)"
proof (cases "elements_for features key")
  case (Inl e)
  from assms(1) obtain f0 fs where f: "features = f0 # fs" by (cases features) auto
  with Inl show ?thesis
    by (cases "getitem f0 key") (auto simp: collate_key_def Let_def)
next
  case (Inr es)
  with assms(2) obtain e where e: "stack es = Inl e" and nt: "\<not> is_TypeError e"
    by (cases "stack es") (auto simp: key_suppressed_def)
  have "snd (collate_key stack str_of features b key) = Inl e"
    using collate_key_result [OF assms(1) Inr, of stack str_of b] e nt by simp
  then show ?thesis
    by (cases "collate_key stack str_of features b key") auto
qed

lemma collate_keys_returns:
  assumes "features \<noteq> []"
  shows "snd (collate_keys stack str_of features b keys) = Inr b' \<Longrightarrow>
           only_type_errors stack features keys"
proof (induction keys arbitrary: b)
  case Nil
  then show ?case by (simp add: only_type_errors_def)
next
  case (Cons k keys)
  show ?case
  proof (cases "key_suppressed stack features k")
    case True
    obtain out b1 where kr: "collate_key stack str_of features b k = (out, Inr b1)"
      using collate_key_continues [OF assms True] by blast
    have "snd (collate_keys stack str_of features b1 keys) = Inr b'"
      using Cons.prems kr by (cases "collate_keys stack str_of features b1 keys") auto
    from Cons.IH [OF this] True show ?thesis by (simp add: only_type_errors_def)
  next
    case False
    obtain out e where "collate_key stack str_of features b k = (out, Inl e)"
      using collate_key_raises [OF assms False] by blast
    with Cons.prems show ?thesis by simp
  qed
qed

lemma stacked_keys_fst:
  "(key, t) \<in> set (stacked_keys stack features keys) \<Longrightarrow>
     stack_of_key stack features key = Some (key, t)"
  by (induction keys) (auto simp: stacked_keys_def stack_of_key_def split: option.splits sum.splits)

text \<open>
  The first key whose stacking raises another exception ends the loop with that
  exception; the last lines printed are the diagnostics of that key's values.
\<close>

lemma collate_keys_raised:
  assumes "features \<noteq> []" and "only_type_errors stack features ks1"
    and "elements_for features key = Inr es" and "stack es = Inl e" and "\<not> is_TypeError e"
  shows "snd (collate_keys stack str_of features b (ks1 @ key # ks2)) = Inl e \<and>
         (\<exists>pre. fst (collate_keys stack str_of features b (ks1 @ key # ks2)) =
            pre @ describe_first str_of es)"
  using assms(2)
proof (induction ks1 arbitrary: b)
  case Nil
  obtain pre where pre: "fst (collate_key stack str_of features b key) = pre @ describe_first str_of es"
    using collate_key_output_raised [of features key es stack e str_of b] assms by blast
  have "snd (collate_key stack str_of features b key) = Inl e"
    using collate_key_result [OF assms(1) assms(3), of stack str_of b] assms(4,5) by simp
  with pre show ?case
    by (cases "collate_key stack str_of features b key") auto
next
  case (Cons k ks1)
  from Cons.prems have sup: "key_suppressed stack features k"
    and rest: "only_type_errors stack features ks1"
    by (simp_all add: only_type_errors_def)
  obtain out b' where kr: "collate_key stack str_of features b k = (out, Inr b')"
    using collate_key_continues [OF assms(1) sup] by blast
  from Cons.IH [OF rest, of b'] obtain pre
    where r: "snd (collate_keys stack str_of features b' (ks1 @ key # ks2)) = Inl e"
      and o: "fst (collate_keys stack str_of features b' (ks1 @ key # ks2)) =
                pre @ describe_first str_of es"
    by blast
  have "snd (collate_keys stack str_of features b ((k # ks1) @ key # ks2)) = Inl e"
    using kr r by (cases "collate_keys stack str_of features b' (ks1 @ key # ks2)") auto
  moreover have "fst (collate_keys stack str_of features b ((k # ks1) @ key # ks2)) =
                   (out @ pre) @ describe_first str_of es"
    using kr o by (cases "collate_keys stack str_of features b' (ks1 @ key # ks2)") auto
  ultimately show ?case by blast
qed

text \<open>The collator around the loop, for a list that starts with a dict.\<close>

lemma collator_dict_result:
  "snd (custom_data_collator stack str_of (PyDict d # fs)) =
     snd (collate_keys stack str_of (PyDict d # fs) [] (map fst d))"
  by (cases "collate_keys stack str_of (PyDict d # fs) [] (map fst d)")
     (auto simp: custom_data_collator_def Let_def split: sum.splits)

lemma collator_dict_output:
  "set (fst (collate_keys stack str_of (PyDict d # fs) [] (map fst d)))
     \<subseteq> set (fst (custom_data_collator stack str_of (PyDict d # fs)))"
  by (cases "collate_keys stack str_of (PyDict d # fs) [] (map fst d)")
     (auto simp: custom_data_collator_def Let_def split: sum.splits)

lemma collator_dict_output_raised:
  assumes "snd (collate_keys stack str_of (PyDict d # fs) [] (map fst d)) = Inl e"
  shows "\<exists>pre. fst (custom_data_collator stack str_of (PyDict d # fs)) =
           pre @ fst (collate_keys stack str_of (PyDict d # fs) [] (map fst d))"
  using assms
  by (cases "collate_keys stack str_of (PyDict d # fs) [] (map fst d)")
     (auto simp: custom_data_collator_def Let_def split: sum.splits)

lemma those_map_filter:
  "those (map f xs) = Some ys \<Longrightarrow> List.map_filter f xs = ys"
  by (induction xs arbitrary: ys) (auto split: option.splits)

lemma those_only_type_errors:
  "those (map (stack_of_key stack features) keys) = Some b \<Longrightarrow> only_type_errors stack features keys"
proof (induction keys arbitrary: b)
  case Nil
  then show ?case by (simp add: only_type_errors_def)
next
  case (Cons k keys)
  from Cons.prems obtain p ps where p: "stack_of_key stack features k = Some p"
    and ps: "those (map (stack_of_key stack features) keys) = Some ps"
    by (auto split: option.splits)
  from Cons.IH [OF ps] stack_of_key_suppressed [OF p] show ?case
    by (simp add: only_type_errors_def)
qed

text \<open>
  C10. Called with an empty list of features, the collator raises nothing and returns
  the empty dict; it prints its opening line, the type of the argument and its closing
  line, and nothing else.
\<close>

theorem collator_empty_features:
  "custom_data_collator stack str_of [] =
     ([[CHR 0x0A] @ ''--- Inside data collator ---'',
       ''Type of '' @ sq ''features'' @ '': '' @ class_str ''list'',
       ''--- End data collator ---'' @ [CHR 0x0A]],
      Inr [])"
  by (simp add: custom_data_collator_def end_line_def)

text \<open>
  C2. For every non-empty list of features that starts with a dict and whose keys can all
  be stacked, the collator returns exactly the batch of the default stack-based
  collation: the keys of the first feature, each mapped to the stack of that key's
  tensors across the features, and nothing else. What is printed, and how values are
  turned into text, makes no difference to the batch.
\<close>

theorem collator_refines_default:
  assumes "features = PyDict d # fs" and "distinct (map fst d)"
    and "default_stack_collation stack features = Some b"
  shows "snd (custom_data_collator stack str_of features) = Inr b"
proof -
  from assms(1,3) have th: "those (map (stack_of_key stack features) (map fst d)) = Some b"
    by (simp add: default_stack_collation_def)
  have ne: "features \<noteq> []" using assms(1) by simp
  have "snd (collate_keys stack str_of features [] (map fst d)) =
          Inr ([] @ stacked_keys stack features (map fst d))"
    by (rule collate_keys_suppressed [OF ne those_only_type_errors [OF th] assms(2)]) simp
  also have "stacked_keys stack features (map fst d) = b"
    unfolding stacked_keys_def by (rule those_map_filter [OF th])
  finally show ?thesis using assms(1) by (simp add: collator_dict_result)
qed

theorem collator_refines_default_witness:
  "distinct (map fst tensor_example_1) \<and>
   default_stack_collation torch_stack [PyDict tensor_example_1, PyDict tensor_example_2] =
     Some [(''input_ids'', Tensor [2, 3] [464, 2068, 50256, 18045, 862, 625]),
           (''attention_mask'', Tensor [2, 3] [1, 1, 0, 1, 1, 1]),
           (''labels'', Tensor [2, 3] [464, 2068, 50256, 18045, 862, 625])] \<and>
   snd (custom_data_collator torch_stack py_str [PyDict tensor_example_1, PyDict tensor_example_2]) =
     Inr [(''input_ids'', Tensor [2, 3] [464, 2068, 50256, 18045, 862, 625]),
          (''attention_mask'', Tensor [2, 3] [1, 1, 0, 1, 1, 1]),
          (''labels'', Tensor [2, 3] [464, 2068, 50256, 18045, 862, 625])]"
proof -
  have d: "distinct (map fst tensor_example_1)"
    by (simp add: tensor_example_1_def)
  have s: "default_stack_collation torch_stack [PyDict tensor_example_1, PyDict tensor_example_2] =
     Some [(''input_ids'', Tensor [2, 3] [464, 2068, 50256, 18045, 862, 625]),
           (''attention_mask'', Tensor [2, 3] [1, 1, 0, 1, 1, 1]),
           (''labels'', Tensor [2, 3] [464, 2068, 50256, 18045, 862, 625])]"
    by (simp add: default_stack_collation_def stack_of_key_def torch_stack_def
          tensor_example_1_def tensor_example_2_def)
  from collator_refines_default [OF refl d s, of py_str] d s show ?thesis by blast
qed

text \<open>
  C1, as amended. Let the list of features start with a dict. Whenever the loop reaches
  a key (every key before it being stacked or suppressed) and stacking that key's
  elements raises a TypeError, the line with the framework's error text is printed,
  whatever happens at the keys after it; the key is left out of the batch and the loop
  goes on. If every key can be collected and its stacking succeeds or raises a
  TypeError, the collator returns, and the batch holds exactly the keys whose stacking
  succeeded (the errors are suppressed). If stacking raises another exception at a key
  that the loop reaches, that exception leaves the collator, and the last lines printed
  are the diagnostics of that key's values: the text of that exception is not printed.
\<close>

theorem collator_stack_failure:
  assumes "features = PyDict d # fs" and "distinct (map fst d)"
  shows "(\<forall>ks1 key ks2 es msg. map fst d = ks1 @ key # ks2 \<and> only_type_errors stack features ks1 \<and>
              elements_for features key = Inr es \<and> stack es = Inl (TypeError msg) \<longrightarrow>
            type_error_line key msg \<in> set (fst (custom_data_collator stack str_of features)) \<and>
            (\<forall>b. snd (custom_data_collator stack str_of features) = Inr b \<longrightarrow>
               key \<notin> fst ` set b)) \<and>
         (only_type_errors stack features (map fst d) \<longrightarrow>
            snd (custom_data_collator stack str_of features) =
              Inr (stacked_keys stack features (map fst d)) \<and>
            (\<forall>key es msg. key \<in> set (map fst d) \<and> elements_for features key = Inr es \<and>
                 stack es = Inl (TypeError msg) \<longrightarrow>
               type_error_line key msg \<in> set (fst (custom_data_collator stack str_of features)))) \<and>
         (\<forall>ks1 key ks2 es e. map fst d = ks1 @ key # ks2 \<and> only_type_errors stack features ks1 \<and>
              elements_for features key = Inr es \<and> stack es = Inl e \<and> \<not> is_TypeError e \<longrightarrow>
            snd (custom_data_collator stack str_of features) = Inl e \<and>
            (\<exists>pre. fst (custom_data_collator stack str_of features) =
               pre @ describe_first str_of es))"
proof (intro conjI impI allI)
  have ne: "features \<noteq> []" using assms(1) by simp
  {
    fix ks1 key ks2 es msg
    assume h: "map fst d = ks1 @ key # ks2 \<and> only_type_errors stack features ks1 \<and>
               elements_for features key = Inr es \<and> stack es = Inl (TypeError msg)"
    have "type_error_line key msg
            \<in> set (fst (collate_keys stack str_of features [] (ks1 @ key # ks2)))"
      using collate_keys_prints_before_raise [OF ne, of stack ks1 key es msg str_of "[]" ks2] h
      by blast
    then show "type_error_line key msg \<in> set (fst (custom_data_collator stack str_of features))"
      using collator_dict_output [of stack str_of d fs] assms(1) h by auto
  next
    fix ks1 key ks2 es msg b
    assume h: "map fst d = ks1 @ key # ks2 \<and> only_type_errors stack features ks1 \<and>
               elements_for features key = Inr es \<and> stack es = Inl (TypeError msg)"
      and b: "snd (custom_data_collator stack str_of features) = Inr b"
    have "snd (collate_keys stack str_of features [] (map fst d)) = Inr b"
      using b assms(1) by (simp add: collator_dict_result)
    then have ok: "only_type_errors stack features (map fst d)"
      by (rule collate_keys_returns [OF ne])
    have "snd (collate_keys stack str_of features [] (map fst d)) =
            Inr ([] @ stacked_keys stack features (map fst d))"
      by (rule collate_keys_suppressed [OF ne ok assms(2)]) simp
    with b assms(1) have eq: "b = stacked_keys stack features (map fst d)"
      by (simp add: collator_dict_result)
    have none: "stack_of_key stack features key = None"
      using h by (simp add: stack_of_key_def)
    show "key \<notin> fst ` set b"
    proof
      assume "key \<in> fst ` set b"
      then obtain t where "(key, t) \<in> set b" by force
      with eq have "stack_of_key stack features key = Some (key, t)"
        using stacked_keys_fst by blast
      with none show False by simp
    qed
  next
    assume ok: "only_type_errors stack features (map fst d)"
    have "snd (collate_keys stack str_of features [] (map fst d)) =
            Inr ([] @ stacked_keys stack features (map fst d))"
      by (rule collate_keys_suppressed [OF ne ok assms(2)]) simp
    then show "snd (custom_data_collator stack str_of features) =
                 Inr (stacked_keys stack features (map fst d))"
      using assms(1) by (simp add: collator_dict_result)
  next
    fix key es msg
    assume ok: "only_type_errors stack features (map fst d)"
      and k: "key \<in> set (map fst d) \<and> elements_for features key = Inr es \<and>
              stack es = Inl (TypeError msg)"
    have "type_error_line key msg \<in> set (fst (collate_keys stack str_of features [] (map fst d)))"
      using collate_keys_printed [OF ne ok, of key es msg str_of "[]"] k by blast
    then show "type_error_line key msg \<in> set (fst (custom_data_collator stack str_of features))"
      using collator_dict_output [of stack str_of d fs] assms(1) by blast
  next
    fix ks1 key ks2 es e
    assume h: "map fst d = ks1 @ key # ks2 \<and> only_type_errors stack features ks1 \<and>
               elements_for features key = Inr es \<and> stack es = Inl e \<and> \<not> is_TypeError e"
    have r: "snd (collate_keys stack str_of features [] (map fst d)) = Inl e \<and>
          (\<exists>pre. fst (collate_keys stack str_of features [] (map fst d)) =
             pre @ describe_first str_of es)"
      using collate_keys_raised [OF ne, of stack ks1 key es e str_of "[]" ks2] h by simp
    then show "snd (custom_data_collator stack str_of features) = Inl e"
      using assms(1) collator_dict_result [of stack str_of d fs] by simp
    from r obtain pre where pre: "fst (collate_keys stack str_of features [] (map fst d)) =
             pre @ describe_first str_of es" by blast
    from r collator_dict_output_raised [of stack str_of d fs e] assms(1)
    obtain pre' where "fst (custom_data_collator stack str_of features) =
           pre' @ fst (collate_keys stack str_of features [] (map fst d))" by auto
    with pre have "fst (custom_data_collator stack str_of features) =
           (pre' @ pre) @ describe_first str_of es" by simp
    then show "\<exists>pre. fst (custom_data_collator stack str_of features) =
               pre @ describe_first str_of es" by blast
  }
qed

theorem collator_stack_failure_witness:
  "distinct (map fst list_example_1) \<and>
   only_type_errors torch_stack [PyDict list_example_1, PyDict list_example_2]
     (map fst list_example_1) \<and>
   snd (custom_data_collator torch_stack py_str [PyDict list_example_1, PyDict list_example_2]) =
     Inr [(''attention_mask'', Tensor [2, 2] [1, 1, 1, 0])] \<and>
   type_error_line ''input_ids'' ''expected Tensor as element 0 in argument 0, but got list''
     \<in> set (fst (custom_data_collator torch_stack py_str
                  [PyDict list_example_1, PyDict list_example_2])) \<and>
   distinct (map fst ragged_example_1) \<and>
   only_type_errors torch_stack [PyDict ragged_example_1, PyDict ragged_example_2] [] \<and>
   snd (custom_data_collator torch_stack py_str [PyDict ragged_example_1, PyDict ragged_example_2]) =
     Inl (RuntimeError
       ''stack expects each tensor to be equal size, but got [2] at entry 0 and [3] at entry 1'') \<and>
   distinct (map fst mixed_example_1) \<and>
   only_type_errors torch_stack [PyDict mixed_example_1, PyDict mixed_example_2] [''input_ids''] \<and>
   type_error_line ''input_ids'' ''expected Tensor as element 0 in argument 0, but got list''
     \<in> set (fst (custom_data_collator torch_stack py_str
                  [PyDict mixed_example_1, PyDict mixed_example_2])) \<and>
   snd (custom_data_collator torch_stack py_str [PyDict mixed_example_1, PyDict mixed_example_2]) =
     Inl (RuntimeError
       ''stack expects each tensor to be equal size, but got [2] at entry 0 and [3] at entry 1'')"
proof -
  let ?fa = "[PyDict list_example_1, PyDict list_example_2]"
  let ?fb = "[PyDict ragged_example_1, PyDict ragged_example_2]"
  let ?fc = "[PyDict mixed_example_1, PyDict mixed_example_2]"
  let ?msg = "''expected Tensor as element 0 in argument 0, but got list''"
  let ?err = "RuntimeError
       ''stack expects each tensor to be equal size, but got [2] at entry 0 and [3] at entry 1''"
  have da: "distinct (map fst list_example_1)" by (simp add: list_example_1_def)
  have oa: "only_type_errors torch_stack ?fa (map fst list_example_1)"
    by (simp add: only_type_errors_def key_suppressed_def torch_stack_def
          list_example_1_def list_example_2_def)
  have ea: "elements_for ?fa ''input_ids'' =
              Inr [PyList [PyInt 464, PyInt 2068], PyList [PyInt 18045, PyInt 862]]"
    by (simp add: list_example_1_def list_example_2_def)
  have sa: "torch_stack [PyList [PyInt 464, PyInt 2068], PyList [PyInt 18045, PyInt 862]] =
              Inl (TypeError ?msg)"
    by (simp add: torch_stack_def str_nat.simps digit_char_def)
  have ka: "''input_ids'' \<in> set (map fst list_example_1)" by (simp add: list_example_1_def)
  have va: "stacked_keys torch_stack ?fa (map fst list_example_1) =
              [(''attention_mask'', Tensor [2, 2] [1, 1, 1, 0])]"
    by (simp add: stacked_keys_def stack_of_key_def torch_stack_def
          list_example_1_def list_example_2_def)
  note a = collator_stack_failure [OF refl da, of torch_stack "[PyDict list_example_2]" py_str]
  from a oa va
  have ra: "snd (custom_data_collator torch_stack py_str ?fa) =
              Inr [(''attention_mask'', Tensor [2, 2] [1, 1, 1, 0])]"
    by simp
  from a oa ka ea sa
  have pa: "type_error_line ''input_ids'' ?msg \<in> set (fst (custom_data_collator torch_stack py_str ?fa))"
    by blast
  have db: "distinct (map fst ragged_example_1)" by (simp add: ragged_example_1_def)
  have ob: "only_type_errors torch_stack ?fb []" by (simp add: only_type_errors_def)
  have kb: "map fst ragged_example_1 = [] @ ''input_ids'' # []" by (simp add: ragged_example_1_def)
  have eb: "elements_for ?fb ''input_ids'' =
              Inr [PyTensor (Tensor [2] [464, 2068]), PyTensor (Tensor [3] [18045, 862, 625])]"
    by (simp add: ragged_example_1_def ragged_example_2_def)
  have sb: "torch_stack [PyTensor (Tensor [2] [464, 2068]), PyTensor (Tensor [3] [18045, 862, 625])] =
              Inl ?err"
    by (simp add: torch_stack_def shape_str_def str_nat.simps digit_char_def)
  have nb: "\<not> is_TypeError ?err" by simp
  note b = collator_stack_failure [OF refl db, of torch_stack "[PyDict ragged_example_2]" py_str]
  from b ob kb eb sb nb
  have rb: "snd (custom_data_collator torch_stack py_str ?fb) = Inl ?err"
    by blast
  have dc: "distinct (map fst mixed_example_1)" by (simp add: mixed_example_1_def)
  have o0: "only_type_errors torch_stack ?fc []" by (simp add: only_type_errors_def)
  have k0: "map fst mixed_example_1 = [] @ ''input_ids'' # [''attention_mask'']"
    by (simp add: mixed_example_1_def)
  have e0: "elements_for ?fc ''input_ids'' =
              Inr [PyList [PyInt 464, PyInt 2068], PyList [PyInt 18045, PyInt 862, PyInt 625]]"
    by (simp add: mixed_example_1_def mixed_example_2_def)
  have s0: "torch_stack [PyList [PyInt 464, PyInt 2068], PyList [PyInt 18045, PyInt 862, PyInt 625]] =
              Inl (TypeError ?msg)"
    by (simp add: torch_stack_def str_nat.simps digit_char_def)
  have oc: "only_type_errors torch_stack ?fc [''input_ids'']"
    using e0 s0 by (simp add: only_type_errors_def key_suppressed_def)
  have kc: "map fst mixed_example_1 = [''input_ids''] @ ''attention_mask'' # []"
    by (simp add: mixed_example_1_def)
  have ec: "elements_for ?fc ''attention_mask'' =
              Inr [PyTensor (Tensor [2] [1, 1]), PyTensor (Tensor [3] [1, 1, 1])]"
    by (simp add: mixed_example_1_def mixed_example_2_def)
  have sc: "torch_stack [PyTensor (Tensor [2] [1, 1]), PyTensor (Tensor [3] [1, 1, 1])] = Inl ?err"
    by (simp add: torch_stack_def shape_str_def str_nat.simps digit_char_def)
  note c = collator_stack_failure [OF refl dc, of torch_stack "[PyDict mixed_example_2]" py_str]
  from c o0 k0 e0 s0
  have pc: "type_error_line ''input_ids'' ?msg \<in> set (fst (custom_data_collator torch_stack py_str ?fc))"
    by blast
  from c oc kc ec sc nb
  have rc: "snd (custom_data_collator torch_stack py_str ?fc) = Inl ?err"
    by blast
  from da oa ra pa db ob rb dc oc pc rc show ?thesis by blast
qed

text \<open>
  The claim as first stated, that a stacking failure always leaves the collator, fails
  on a batch whose \<^verbatim>\<open>input_ids\<close> are lists: stacking them raises a TypeError, and the
  collator returns a batch without that key.
\<close>

theorem collator_suppresses_type_error:
  "elements_for [PyDict list_example_1, PyDict list_example_2] ''input_ids'' =
     Inr [PyList [PyInt 464, PyInt 2068], PyList [PyInt 18045, PyInt 862]] \<and>
   torch_stack [PyList [PyInt 464, PyInt 2068], PyList [PyInt 18045, PyInt 862]] =
     Inl (TypeError ''expected Tensor as element 0 in argument 0, but got list'') \<and>
   snd (custom_data_collator torch_stack py_str [PyDict list_example_1, PyDict list_example_2]) =
     Inr [(''attention_mask'', Tensor [2, 2] [1, 1, 1, 0])]"
  by (simp add: custom_data_collator_def collate_key_def torch_stack_def
        list_example_1_def list_example_2_def str_nat.simps digit_char_def)

section \<open>Properties of the tokenization\<close>

lemma clone_id: "clone t = t"
  by (cases t) (simp add: clone_def)

lemma map_of_squeezed:
  "map_of (map (\<lambda>(key, value). (key, squeeze0 value)) enc) k = map_option squeeze0 (map_of enc k)"
  by (induction enc) auto

text \<open>
  C9. Whatever the tokenizer returns, the \<^verbatim>\<open>labels\<close> field that \<^verbatim>\<open>tokenize_function\<close>
  returns is the same tensor, element by element, as the \<^verbatim>\<open>input_ids\<close> field of the
  same example: a copy, neither shifted nor changed.
\<close>

theorem labels_copy_input_ids:
  assumes "tokenize_function tokenizer example = Inr d"
  shows "\<exists>t. map_of d ''input_ids'' = Some t \<and> map_of d ''labels'' = Some t"
proof -
  from assms obtain sentence enc ids where enc: "tokenizer sentence 32 True ''max_length'' = Inr enc"
    and ids: "map_of enc ''input_ids'' = Some ids"
    and d: "d = map (\<lambda>(key, value). (key, squeeze0 value)) (AList.update ''labels'' (clone ids) enc)"
    by (auto simp: tokenize_function_def split: option.splits sum.splits)
  have "map_of d ''labels'' = Some (squeeze0 ids)"
    by (simp add: d map_of_squeezed update_conv' clone_id)
  moreover have "map_of d ''input_ids'' = Some (squeeze0 ids)"
    by (simp add: d map_of_squeezed update_conv' ids)
  ultimately show ?thesis by simp
qed

theorem labels_copy_input_ids_witness:
  "tokenize_function (tokenizer_call (set_pad_to_eos byte_tokenizer))
     [(''text'', ''The quick brown fox'')] =
     Inr [(''input_ids'', Tensor [32] fox_ids),
          (''attention_mask'', Tensor [32] fox_mask),
          (''labels'', Tensor [32] fox_ids)] \<and>
   (\<exists>t. map_of [(''input_ids'', Tensor [32] fox_ids),
                 (''attention_mask'', Tensor [32] fox_mask),
                 (''labels'', Tensor [32] fox_ids)] ''input_ids'' = Some t \<and>
        map_of [(''input_ids'', Tensor [32] fox_ids),
                (''attention_mask'', Tensor [32] fox_mask),
                (''labels'', Tensor [32] fox_ids)] ''labels'' = Some t)"
proof -
  have h: "tokenize_function (tokenizer_call (set_pad_to_eos byte_tokenizer))
     [(''text'', ''The quick brown fox'')] =
     Inr [(''input_ids'', Tensor [32] fox_ids),
          (''attention_mask'', Tensor [32] fox_mask),
          (''labels'', Tensor [32] fox_ids)]"
    by (simp add: tokenize_function_def tokenizer_call_def set_pad_to_eos_def byte_tokenizer_def
          clone_def fox_ids_def fox_mask_def Let_def eval_nat_numeral)
  from labels_copy_input_ids [OF h] h show ?thesis by blast
qed



section \<open>Properties of the notebook\<close>

text \<open>
  C4. Every package-installation command of the notebook should install a pinned
  version. None of the five requirements of the three \<^verbatim>\<open>pip install\<close> commands names a
  version; this is the installation cell evaluated.
\<close>

theorem pip_requirements_unpinned:
  "map (\<lambda>cmd. map (\<lambda>req. (req, pinned req)) (requirements cmd)) pip_install_cell =
     [[(''torch'', False), (''torchvision'', False), (''torchaudio'', False)],
      [(''git+https://github.com/huggingface/transformers.git'', False)],
      [(''datasets'', False)]]"
  by code_simp

text \<open>
  C6, as amended. The stages of the script occur in this order: the tokenizer loader and
  the dataset and tokenizer utilities, then the pretrained-model loader, then the
  generic trainer, then (between two further tokenizer calls) the text-generation
  utility, then saving to disk.
\<close>

theorem script_stage_order:
  "stages cpu_trainer =
     [DatasetTokenizerUtility, PretrainedModelLoader, GenericTrainer, DatasetTokenizerUtility,
      TextGeneration, DatasetTokenizerUtility, SaveToDisk]"
  by code_simp

text \<open>
  The order as first stated (model loader, then dataset and tokenizer utilities, then
  trainer, then generation, then saving) does not occur in the script, not even with
  other calls in between: the model is loaded after the dataset is built and tokenized,
  and no dataset or tokenizer utility is called between loading the model and training.
\<close>

theorem model_loader_not_first:
  "\<not> subseq claimed_order (map stage_of cpu_trainer)"
  by code_simp

text \<open>
  C8, as amended. The accelerator-related configuration of the repository: the training
  configuration sets \<^verbatim>\<open>device\<close> to \<^verbatim>\<open>"cpu"\<close> and \<^verbatim>\<open>no_cuda\<close> to True; the device moves of
  the script are those of the model and of the inference input (twice), each to the CPU;
  the run instructions set \<^verbatim>\<open>CUDA_VISIBLE_DEVICES\<close> to the empty string, and beside it
  they set the allocator variable \<^verbatim>\<open>PYTORCH_CUDA_ALLOC_CONF\<close>.
\<close>

theorem cpu_only_configuration:
  "device training_args = ''cpu'' \<and> no_cuda training_args \<and>
   device_moves cpu_trainer =
     [(''model'', ''cpu''), (''tokenizer(prompt).input_ids'', ''cpu''), (''input_ids'', ''cpu'')] \<and>
   map_of run_exports ''CUDA_VISIBLE_DEVICES'' = Some '''' \<and>
   filter accelerator_related (map fst run_exports) =
     [''CUDA_VISIBLE_DEVICES'', ''PYTORCH_CUDA_ALLOC_CONF'']"
  by code_simp

text \<open>
  Blanking out \<^verbatim>\<open>CUDA_VISIBLE_DEVICES\<close> is not the only accelerator-related setting of
  the run instructions.
\<close>

theorem second_accelerator_variable:
  "filter accelerator_related (map fst run_exports) \<noteq> [''CUDA_VISIBLE_DEVICES'']"
  by code_simp

section \<open>Properties of the Makefile\<close>

text \<open>
  C7. The Makefile has exactly the targets all, clean, format, lint, test, mypy, install,
  install-dev and megalint. The recipe of all prints three heading lines and then
  exactly the nine rule lines of these targets, each with its description, and no other
  line of the file. Every command of every recipe starts an external
  tool (echo, fgrep, rm, poetry, make, docker); no command deals with exit statuses
  itself, and the file defines no variable beside its default goal, so exit codes and
  flags are those of the tools.
\<close>

theorem makefile_targets:
  "map fst (rules_of makefile_lines) =
     [''all'', ''clean'', ''format'', ''lint'', ''test'', ''mypy'', ''install'', ''install-dev'',
      ''megalint''] \<and>
   make_all_output =
     [''Usage: make <target>'',
      [],
      ''Targets:'',
      ''all: ## Show the available make targets.'',
      ''clean: ## Clean the temporary files.'',
      ''format:  ## Format the code.'',
      ''lint:  ## Run all linters (black/ruff/pylint/mypy).'',
      ''test:  ## Run the tests and check coverage.'',
      ''mypy:  ## Run mypy.'',
      ''install:  ## Install the dependencies excluding dev.'',
      ''install-dev:  ## Install the dependencies including dev.'',
      ''megalint:  ## Run the mega-linter.''] \<and>
   List.map_filter rule_target (drop 3 make_all_output) =
     [''all'', ''clean'', ''format'', ''lint'', ''test'', ''mypy'', ''install'', ''install-dev'',
      ''megalint''] \<and>
   map (\<lambda>(t, cmds). (t, map program cmds)) (commands_of makefile_lines) =
     [(''all'', [''echo'', ''echo'', ''echo'', ''fgrep'']),
      (''clean'', [''rm'', ''rm'', ''rm'', ''rm'', ''rm'']),
      (''format'', [''poetry'', ''poetry'']),
      (''lint'', [''poetry'', ''poetry'', ''make'']),
      (''test'', [''poetry'']),
      (''mypy'', [''poetry'']),
      (''install'', [''poetry'']),
      (''install-dev'', [''poetry'']),
      (''megalint'', [''docker''])] \<and>
   filter handles_exit_status (concat (map snd (commands_of makefile_lines))) = [] \<and>
   assignments makefile_lines = [''.DEFAULT_GOAL := all'']"
  by code_simp

end
